theory Spec2Isabelle
  imports Complex_Main
begin

section \<open>The index computation of \<^verbatim>\<open>src/indices.py\<close>\<close>

text \<open>
  \<^verbatim>\<open>compute_index(df, features=None)\<close> selects feature columns of a pandas DataFrame, fills
  missing values with 0, standardises each column (scikit-learn's \<^verbatim>\<open>StandardScaler\<close>),
  reduces several columns to one score by a one-component PCA, and rescales the score to
  the unit interval. Floating-point numbers are modelled by the reals, as the specification
  speaks of real numbers, so a cell of a number column holds a finite number or is missing;
  every raise of the code or of the library calls it makes is a value \<open>Inl e\<close> of the
  result. The calls into pandas, numpy and scikit-learn are modelled by what these libraries
  document.
\<close>

subsection \<open>Data model\<close>

datatype error = KeyError | ValueError

text \<open>
  A DataFrame column either has a number dtype, with missing entries (NaN) as \<open>None\<close>, or
  holds text that cannot be read as a number (such as a municipality name).
\<close>

datatype column = Numeric "real option list" | Other "string list"

record dataframe =
  nrows :: nat
  columns :: "(string \<times> column) list"

fun col_length :: "column \<Rightarrow> nat" where
  "col_length (Numeric xs) = length xs"
| "col_length (Other xs) = length xs"

fun is_number :: "column \<Rightarrow> bool" where
  "is_number (Numeric xs) = True"
| "is_number (Other xs) = False"

text \<open>A DataFrame has distinct column names here, and every column has one entry per row.\<close>

definition wf_dataframe :: "dataframe \<Rightarrow> bool" where
  "wf_dataframe df \<longleftrightarrow>
     distinct (map fst (columns df)) \<and>
     list_all (\<lambda>nc. col_length (snd nc) = nrows df) (columns df)"

text \<open>\<^verbatim>\<open>df.select_dtypes(include=["number"]).columns.tolist()\<close>\<close>

definition select_dtypes_number :: "dataframe \<Rightarrow> string list" where
  "select_dtypes_number df = map fst (filter (\<lambda>nc. is_number (snd nc)) (columns df))"

text \<open>\<^verbatim>\<open>df[features]\<close>: the named columns in the order of the list; an unknown name raises.\<close>

fun getitem :: "dataframe \<Rightarrow> string list \<Rightarrow> error + column list" where
  "getitem df [] = Inr []"
| "getitem df (f # fs) =
     (case map_of (columns df) f of
        None \<Rightarrow> Inl KeyError
      | Some c \<Rightarrow> (case getitem df fs of Inl e \<Rightarrow> Inl e | Inr cs \<Rightarrow> Inr (c # cs)))"

text \<open>\<^verbatim>\<open>.fillna(0)\<close>: afterwards a number column has no missing entry.\<close>

datatype dense = Floats "real list" | Strings "string list"

fun fillna :: "real \<Rightarrow> column \<Rightarrow> dense" where
  "fillna v (Numeric xs) = Floats (map (\<lambda>x. case x of None \<Rightarrow> v | Some y \<Rightarrow> y) xs)"
| "fillna v (Other xs) = Strings xs"

text \<open>A two-dimensional numpy array of floats: the row count and the list of its columns.\<close>

record ndarray =
  shape0 :: nat
  cols :: "real list list"

definition shape1 :: "ndarray \<Rightarrow> nat" where
  "shape1 A = length (cols A)"

definition rows :: "ndarray \<Rightarrow> real list list" where
  "rows A = map (\<lambda>i. map (\<lambda>c. c ! i) (cols A)) [0..<shape0 A]"

text \<open>\<^verbatim>\<open>.ravel()\<close>: the entries in row-major order.\<close>

definition ravel :: "ndarray \<Rightarrow> real list" where
  "ravel A = concat (rows A)"

subsection \<open>\<^verbatim>\<open>StandardScaler().fit_transform\<close>\<close>

text \<open>
  The input validation of scikit-learn converts the frame to a float array, which fails on
  text, and requires at least one sample and one feature.
\<close>

fun as_float_array :: "dense list \<Rightarrow> error + real list list" where
  "as_float_array [] = Inr []"
| "as_float_array (Floats xs # cs) =
     (case as_float_array cs of Inl e \<Rightarrow> Inl e | Inr M \<Rightarrow> Inr (xs # M))"
| "as_float_array (Strings xs # cs) = Inl ValueError"

definition check_array :: "nat \<Rightarrow> dense list \<Rightarrow> error + ndarray" where
  "check_array n cs =
     (case as_float_array cs of
        Inl e \<Rightarrow> Inl e
      | Inr M \<Rightarrow>
          if n < 1 then Inl ValueError
          else if length M < 1 then Inl ValueError
          else Inr \<lparr>shape0 = n, cols = M\<rparr>)"

definition mean :: "real list \<Rightarrow> real" where
  "mean xs = sum_list xs / real (length xs)"

text \<open>The population variance (divisor \<open>n\<close>), as \<^verbatim>\<open>StandardScaler\<close> computes it.\<close>

definition var :: "real list \<Rightarrow> real" where
  "var xs = sum_list (map (\<lambda>x. (x - mean xs)\<^sup>2) xs) / real (length xs)"

text \<open>A scale of zero (a constant feature) is replaced by 1, so that nothing divides by 0.\<close>

definition handle_zeros_in_scale :: "real \<Rightarrow> real" where
  "handle_zeros_in_scale s = (if s = 0 then 1 else s)"

definition scale_col :: "real list \<Rightarrow> real list" where
  "scale_col xs =
     (let m = mean xs; s = handle_zeros_in_scale (sqrt (var xs))
      in map (\<lambda>x. (x - m) / s) xs)"

definition scaler_fit_transform :: "nat \<Rightarrow> dense list \<Rightarrow> error + ndarray" where
  "scaler_fit_transform n cs =
     (case check_array n cs of
        Inl e \<Rightarrow> Inl e
      | Inr X \<Rightarrow> Inr \<lparr>shape0 = shape0 X, cols = map scale_col (cols X)\<rparr>)"

subsection \<open>\<^verbatim>\<open>PCA(n_components=1).fit_transform\<close>\<close>

text \<open>
  PCA centres every column and projects each row onto the first principal axis. The axis
  is computed by a singular value decomposition inside the library; it is a parameter
  \<open>axis\<close> of the model, and \<open>first_axis\<close> says what the library guarantees of it: a unit
  vector along which the projected rows have the largest sum of squares. Its sign is the
  library's choice.
\<close>

definition dot :: "real list \<Rightarrow> real list \<Rightarrow> real" where
  "dot u v = sum_list (map2 (*) u v)"

definition centre :: "ndarray \<Rightarrow> ndarray" where
  "centre X = \<lparr>shape0 = shape0 X, cols = map (\<lambda>c. map (\<lambda>x. x - mean c) c) (cols X)\<rparr>"

definition project :: "ndarray \<Rightarrow> real list \<Rightarrow> real list" where
  "project X v = map (\<lambda>r. dot r v) (rows X)"


definition pca_fit_transform :: "real list \<Rightarrow> ndarray \<Rightarrow> error + ndarray" where
  "pca_fit_transform axis X =
     (if min (shape0 X) (shape1 X) < 1 then Inl ValueError
      else Inr \<lparr>shape0 = shape0 X, cols = [project (centre X) axis]\<rparr>)"

subsection \<open>\<^verbatim>\<open>compute_index\<close>\<close>

text \<open>\<^verbatim>\<open>score.max()\<close> and \<^verbatim>\<open>score.min()\<close> raise on an empty array.\<close>

fun amax :: "real list \<Rightarrow> error + real" where
  "amax [] = Inl ValueError"
| "amax (x # xs) = Inr (fold max xs x)"

fun amin :: "real list \<Rightarrow> error + real" where
  "amin [] = Inl ValueError"
| "amin (x # xs) = Inr (fold min xs x)"

text \<open>\<^verbatim>\<open>pd.Series(values, index=df.index)\<close> raises unless there is one value per row.\<close>

definition series :: "real list \<Rightarrow> nat \<Rightarrow> error + real list" where
  "series values n = (if length values = n then Inr values else Inl ValueError)"

definition rescale :: "real \<Rightarrow> real \<Rightarrow> real list \<Rightarrow> real list" where
  "rescale mn mx score = map (\<lambda>s. (s - mn) / (mx - mn)) score"

text \<open>Lines 39 to 42: the normalisation to the unit interval.\<close>

definition normalize01 :: "real list \<Rightarrow> nat \<Rightarrow> error + real list" where
  "normalize01 score n =
     (case amax score of
        Inl e \<Rightarrow> Inl e
      | Inr mx \<Rightarrow>
          (case amin score of
             Inl e \<Rightarrow> Inl e
           | Inr mn \<Rightarrow>
               if mx = mn then Inr (replicate n 0)
               else series (rescale mn mx score) n))"

text \<open>Lines 28 to 30: the selected columns, filled and standardised.\<close>

definition standardized :: "dataframe \<Rightarrow> string list \<Rightarrow> error + ndarray" where
  "standardized df features =
     (case getitem df features of
        Inl e \<Rightarrow> Inl e
      | Inr X \<Rightarrow> scaler_fit_transform (nrows df) (map (fillna 0) X))"

text \<open>Lines 28 to 37: the score before it is normalised.\<close>

definition raw_score :: "real list \<Rightarrow> dataframe \<Rightarrow> string list \<Rightarrow> error + real list" where
  "raw_score axis df features =
     (case standardized df features of
        Inl e \<Rightarrow> Inl e
      | Inr Xs \<Rightarrow>
          if shape1 Xs = 1 then Inr (ravel Xs)
          else (case pca_fit_transform axis Xs of
                  Inl e \<Rightarrow> Inl e
                | Inr P \<Rightarrow> Inr (ravel P)))"

text \<open>Lines 20 to 22: the feature list, by default every column of a number dtype.\<close>

definition default_features :: "dataframe \<Rightarrow> string list option \<Rightarrow> string list" where
  "default_features df features =
     (case features of None \<Rightarrow> select_dtypes_number df | Some fs \<Rightarrow> fs)"

definition compute_index ::
    "real list \<Rightarrow> dataframe \<Rightarrow> string list option \<Rightarrow> error + real list" where
  "compute_index axis df features =
     (let features = default_features df features
      in if length features = 0 then Inr (replicate (nrows df) 0)
         else (case raw_score axis df features of
                 Inl e \<Rightarrow> Inl e
               | Inr score \<Rightarrow> normalize01 score (nrows df)))"

subsection \<open>Notions used to state the properties\<close>

text \<open>The values of a number column after the fill step.\<close>

definition filled :: "real \<Rightarrow> column \<Rightarrow> real list" where
  "filled v c =
     (case c of
        Numeric xs \<Rightarrow> map (\<lambda>x. case x of None \<Rightarrow> v | Some y \<Rightarrow> y) xs
      | Other _ \<Rightarrow> [])"

definition feature_values :: "dataframe \<Rightarrow> string \<Rightarrow> real list" where
  "feature_values df f = (case map_of (columns df) f of None \<Rightarrow> [] | Some c \<Rightarrow> filled 0 c)"

text \<open>The features name number columns of the table, as the caller has to ensure.\<close>

definition valid_features :: "dataframe \<Rightarrow> string list \<Rightarrow> bool" where
  "valid_features df fs \<longleftrightarrow> list_all (\<lambda>f. f \<in> set (select_dtypes_number df)) fs"

definition scaled_features :: "dataframe \<Rightarrow> string list \<Rightarrow> ndarray" where
  "scaled_features df fs =
     \<lparr>shape0 = nrows df, cols = map (\<lambda>f. scale_col (feature_values df f)) fs\<rparr>"

text \<open>All rows of a column hold the same value: the column has zero variance.\<close>

definition is_constant :: "real list \<Rightarrow> bool" where
  "is_constant xs \<longleftrightarrow> (\<forall>x\<in>set xs. \<forall>y\<in>set xs. x = y)"

text \<open>
  The standardised value of row \<open>i\<close> in feature \<open>f\<close>, and the score of row \<open>i\<close> before
  normalisation, written from the values of that row and the statistics of the columns.
\<close>

definition standard_value :: "dataframe \<Rightarrow> string \<Rightarrow> nat \<Rightarrow> real" where
  "standard_value df f i =
     (feature_values df f ! i - mean (feature_values df f))
       / handle_zeros_in_scale (sqrt (var (feature_values df f)))"

definition row_score :: "real list \<Rightarrow> dataframe \<Rightarrow> string list \<Rightarrow> nat \<Rightarrow> real" where
  "row_score axis df fs i =
     (if length fs = 1 then standard_value df (hd fs) i
      else dot (map (\<lambda>f. standard_value df f i - mean (scale_col (feature_values df f))) fs)
             axis)"


subsection \<open>Example tables\<close>

text \<open>A table of three municipalities with a name column only.\<close>

definition names_only :: dataframe where
  "names_only = \<lparr>nrows = 3, columns = [(''municipio'', Other [''A'', ''B'', ''C''])]\<rparr>"

text \<open>A table with a population column and no row.\<close>

definition no_rows :: dataframe where
  "no_rows = \<lparr>nrows = 0, columns = [(''populacao'', Numeric [])]\<rparr>"

text \<open>Scenario A of the specification: one feature column holding 10, 20, 30.\<close>

definition scenario_a :: dataframe where
  "scenario_a = \<lparr>nrows = 3, columns = [(''populacao'', Numeric [Some 10, Some 20, Some 30])]\<rparr>"

text \<open>Scenario B of the specification: one feature column holding 5, 5, 5.\<close>

definition scenario_b :: dataframe where
  "scenario_b = \<lparr>nrows = 3, columns = [(''populacao'', Numeric [Some 5, Some 5, Some 5])]\<rparr>"

text \<open>A table of two rows with one feature column.\<close>

definition two_rows :: dataframe where
  "two_rows = \<lparr>nrows = 2, columns = [(''populacao'', Numeric [Some 1, Some 3])]\<rparr>"


section \<open>Auxiliary facts\<close>

subsection \<open>Selecting and validating the columns\<close>

lemma numeric_lookup:
  assumes "distinct (map fst (columns df))" "f \<in> set (select_dtypes_number df)"
  shows "\<exists>xs. map_of (columns df) f = Some (Numeric xs)"
proof -
  from assms(2) obtain c where "(f, c) \<in> set (columns df)" "is_number c"
    by (auto simp: select_dtypes_number_def)
  with assms(1) have "map_of (columns df) f = Some c" by simp
  with \<open>is_number c\<close> show ?thesis by (cases c) auto
qed

lemma getitem_valid:
  assumes "distinct (map fst (columns df))"
  shows "valid_features df fs \<Longrightarrow>
    as_float_array (map (fillna 0) (case getitem df fs of Inr cs \<Rightarrow> cs | Inl e \<Rightarrow> []))
      = Inr (map (feature_values df) fs)
    \<and> (\<exists>cs. getitem df fs = Inr cs)"
proof (induction fs)
  case Nil
  then show ?case by simp
next
  case (Cons f fs)
  then have "f \<in> set (select_dtypes_number df)" by (simp add: valid_features_def)
  from numeric_lookup[OF assms this]
  obtain xs where "map_of (columns df) f = Some (Numeric xs)" ..
  with Cons show ?case
    by (auto simp: valid_features_def feature_values_def filled_def)
qed

lemma feature_values_length:
  assumes "wf_dataframe df" "f \<in> set (select_dtypes_number df)"
  shows "length (feature_values df f) = nrows df"
proof -
  from assms have d: "distinct (map fst (columns df))" by (simp add: wf_dataframe_def)
  from numeric_lookup[OF d assms(2)]
  obtain xs where xs: "map_of (columns df) f = Some (Numeric xs)" ..
  then have "(f, Numeric xs) \<in> set (columns df)" by (rule map_of_SomeD)
  with assms(1) have "length xs = nrows df"
    by (auto simp: wf_dataframe_def list_all_iff)
  with xs show ?thesis by (simp add: feature_values_def filled_def)
qed

lemma valid_default_features: "valid_features df (default_features df None)"
  by (simp add: valid_features_def default_features_def list_all_iff)

lemma standardized_valid:
  assumes "wf_dataframe df" "valid_features df fs"
  shows "standardized df fs =
     (if nrows df = 0 \<or> fs = [] then Inl ValueError else Inr (scaled_features df fs))"
proof -
  from assms have d: "distinct (map fst (columns df))" by (simp add: wf_dataframe_def)
  from getitem_valid[OF d assms(2)] obtain cs where
    cs: "getitem df fs = Inr cs"
      "as_float_array (map (fillna 0) cs) = Inr (map (feature_values df) fs)"
    by auto
  then show ?thesis
    by (simp add: standardized_def scaler_fit_transform_def check_array_def comp_def
        scaled_features_def)
qed

subsection \<open>Flattening, projecting, extrema\<close>

lemma ravel_single: "length c = n \<Longrightarrow> ravel \<lparr>shape0 = n, cols = [c]\<rparr> = c"
proof -
  assume n: "length c = n"
  have "concat (map (\<lambda>i. [c ! i]) [0..<length c]) = map (\<lambda>i. c ! i) [0..<length c]"
    by simp
  then show ?thesis using n map_nth [of c] by (simp add: ravel_def rows_def)
qed

lemma length_project [simp]: "length (project X v) = shape0 X"
  by (simp add: project_def rows_def)

lemma length_scale_col [simp]: "length (scale_col xs) = length xs"
  by (simp add: scale_col_def Let_def)

lemma amax_Max: "xs \<noteq> [] \<Longrightarrow> amax xs = Inr (Max (set xs))"
  by (cases xs) (simp_all add: Max.set_eq_fold [symmetric])

lemma amin_Min: "xs \<noteq> [] \<Longrightarrow> amin xs = Inr (Min (set xs))"
  by (cases xs) (simp_all add: Min.set_eq_fold [symmetric])

lemma normalize01_nonempty:
  assumes "score \<noteq> []" "length score = n"
  shows "normalize01 score n =
     Inr (if Max (set score) = Min (set score) then replicate n 0
          else rescale (Min (set score)) (Max (set score)) score)"
  using assms by (simp add: normalize01_def amax_Max amin_Min series_def rescale_def)

lemma amax_Inr: "amax xs = Inr mx \<Longrightarrow> xs \<noteq> [] \<and> mx = Max (set xs)"
  by (cases xs) (simp_all add: Max.set_eq_fold [symmetric])

lemma amin_Inr: "amin xs = Inr mn \<Longrightarrow> xs \<noteq> [] \<and> mn = Min (set xs)"
  by (cases xs) (simp_all add: Min.set_eq_fold [symmetric])

lemma rescale_mono: "mn < mx \<Longrightarrow> mono (\<lambda>s::real. (s - mn) / (mx - mn))"
  by (rule monoI) (simp add: divide_right_mono)

lemma Max_rescale:
  assumes "xs \<noteq> []" "Min (set xs) < Max (set xs)"
  shows "Max (set (rescale (Min (set xs)) (Max (set xs)) xs)) = 1"
proof -
  let ?f = "\<lambda>s::real. (s - Min (set xs)) / (Max (set xs) - Min (set xs))"
  have "Max (?f ` set xs) = ?f (Max (set xs))"
    using assms by (intro mono_Max_commute [symmetric] rescale_mono) simp_all
  with assms show ?thesis by (simp add: rescale_def)
qed

lemma Min_rescale:
  assumes "xs \<noteq> []" "Min (set xs) < Max (set xs)"
  shows "Min (set (rescale (Min (set xs)) (Max (set xs)) xs)) = 0"
proof -
  let ?f = "\<lambda>s::real. (s - Min (set xs)) / (Max (set xs) - Min (set xs))"
  have "Min (?f ` set xs) = ?f (Min (set xs))"
    using assms by (intro mono_Min_commute [symmetric] rescale_mono) simp_all
  with assms show ?thesis by (simp add: rescale_def)
qed

lemma rescale_unit: "rescale 0 1 xs = xs"
  by (simp add: rescale_def)

subsection \<open>Standardising a column\<close>



lemma scale_col_nth:
  "i < length xs \<Longrightarrow>
   scale_col xs ! i = (xs ! i - mean xs) / handle_zeros_in_scale (sqrt (var xs))"
  by (simp add: scale_col_def Let_def)

lemma constant_replicate:
  assumes "is_constant xs" "xs \<noteq> []"
  shows "xs = replicate (length xs) (hd xs)"
proof -
  from assms have "\<forall>x\<in>set xs. x = hd xs" by (auto simp: is_constant_def)
  then show ?thesis by (simp add: replicate_length_same)
qed

lemma mean_replicate: "0 < n \<Longrightarrow> mean (replicate n c) = c"
  by (simp add: mean_def sum_list_replicate)

lemma scale_col_constant:
  assumes "is_constant xs"
  shows "scale_col xs = replicate (length xs) 0"
proof (cases "xs = []")
  case True
  then show ?thesis by (simp add: scale_col_def)
next
  case False
  from constant_replicate[OF assms False] obtain c where xs: "xs = replicate (length xs) c" ..
  from False have n: "0 < length xs" by simp
  have "mean xs = c" using mean_replicate[OF n, of c] xs by simp
  then have "scale_col xs = map (\<lambda>x. 0) xs"
    unfolding scale_col_def Let_def using xs
    by (intro map_cong) (auto simp: in_set_replicate dest!: arg_cong [where f = set])
  then show ?thesis by (simp add: map_replicate_const)
qed



lemma dot_zero: "\<forall>x\<in>set r. x = 0 \<Longrightarrow> dot r v = 0"
proof -
  assume z: "\<forall>x\<in>set r. x = 0"
  have "map2 (*) r v = map (\<lambda>p. 0) (zip r v)"
    using z by (intro map_cong) (auto dest: set_zip_leftD)
  then have "sum_list (map2 (*) r v) = sum_list (map (\<lambda>p. 0::real) (zip r v))"
    by (rule arg_cong)
  then show ?thesis unfolding dot_def by simp
qed

lemma project_constant:
  assumes "\<forall>c\<in>set (cols X). c = replicate (shape0 X) 0"
  shows "project (centre X) v = replicate (shape0 X) 0"
proof -
  have "dot r v = 0" if "r \<in> set (rows (centre X))" for r
  proof -
    from that obtain i where i: "i < shape0 X"
      "r = map (\<lambda>c. c ! i) (map (\<lambda>c. map (\<lambda>x. x - mean c) c) (cols X))"
      by (auto simp: rows_def centre_def)
    have "\<forall>x\<in>set r. x = 0"
    proof
      fix x assume "x \<in> set r"
      with i obtain c where c: "c \<in> set (cols X)" "x = map (\<lambda>x. x - mean c) c ! i"
        by auto
      with assms have "c = replicate (shape0 X) 0" by simp
      with c i show "x = 0"
        using mean_replicate [of "shape0 X" 0] by (cases "shape0 X = 0") simp_all
    qed
    then show ?thesis by (rule dot_zero)
  qed
  then have "project (centre X) v = map (\<lambda>r. 0) (rows (centre X))"
    unfolding project_def by (intro map_cong) auto
  then show ?thesis by (simp add: map_replicate_const rows_def centre_def)
qed

subsection \<open>The score before normalisation\<close>

lemma raw_score_valid:
  assumes "wf_dataframe df" "valid_features df fs" "0 < nrows df" "fs \<noteq> []"
  shows "raw_score axis df fs =
     Inr (if length fs = 1 then scale_col (feature_values df (hd fs))
          else project (centre (scaled_features df fs)) axis)"
proof (cases "length fs = 1")
  case True
  then obtain f where f: "fs = [f]" by (cases fs) auto
  with assms(2) have "f \<in> set (select_dtypes_number df)" by (simp add: valid_features_def)
  from feature_values_length[OF assms(1) this]
  have "length (scale_col (feature_values df f)) = nrows df"
    by simp
  then show ?thesis using assms f
    by (simp add: raw_score_def standardized_valid shape1_def ravel_single
        scaled_features_def)
next
  case False
  have "length (project (centre (scaled_features df fs)) axis) = nrows df"
    by (simp add: centre_def scaled_features_def)
  then show ?thesis using assms False
    by (simp add: raw_score_def standardized_valid shape1_def pca_fit_transform_def
        ravel_single scaled_features_def centre_def Suc_leI)
qed

lemma raw_score_length:
  assumes "wf_dataframe df" "valid_features df fs" "0 < nrows df" "fs \<noteq> []"
    and "raw_score axis df fs = Inr sc"
  shows "length sc = nrows df"
proof (cases "length fs = 1")
  case True
  then obtain f where f: "fs = [f]" by (cases fs) auto
  with assms(2) have "f \<in> set (select_dtypes_number df)" by (simp add: valid_features_def)
  from feature_values_length[OF assms(1) this] show ?thesis
    using assms f by (auto simp add: raw_score_valid)
next
  case False
  then show ?thesis using assms
    by (auto simp add: raw_score_valid centre_def scaled_features_def)
qed

lemma raw_score_constant:
  assumes "wf_dataframe df" "valid_features df fs" "0 < nrows df" "fs \<noteq> []"
    and "list_all (\<lambda>f. is_constant (feature_values df f)) fs"
  shows "raw_score axis df fs = Inr (replicate (nrows df) 0)"
proof -
  have col: "scale_col (feature_values df f) = replicate (nrows df) 0" if "f \<in> set fs" for f
  proof -
    from that assms(2) have "f \<in> set (select_dtypes_number df)"
      by (simp add: valid_features_def list_all_iff)
    from feature_values_length[OF assms(1) this] that assms(5) show ?thesis
      by (simp add: scale_col_constant list_all_iff)
  qed
  show ?thesis
  proof (cases "length fs = 1")
    case True
    then obtain f where "fs = [f]" by (cases fs) auto
    with col [of f] raw_score_valid[OF assms(1-4), of axis] show ?thesis by simp
  next
    case False
    have "\<forall>c\<in>set (cols (scaled_features df fs)). c = replicate (shape0 (scaled_features df fs)) 0"
      using col by (auto simp: scaled_features_def)
    from project_constant[OF this, of axis] False raw_score_valid[OF assms(1-4), of axis]
    show ?thesis by (simp add: scaled_features_def)
  qed
qed

lemma raw_score_nth:
  assumes "wf_dataframe df" "valid_features df fs" "0 < nrows df" "fs \<noteq> []"
    and "raw_score axis df fs = Inr sc" "i < nrows df"
  shows "sc ! i = row_score axis df fs i"
proof -
  have len: "length (feature_values df f) = nrows df" if "f \<in> set fs" for f
  proof -
    from that assms(2) have "f \<in> set (select_dtypes_number df)"
      by (simp add: valid_features_def list_all_iff)
    from feature_values_length[OF assms(1) this] show ?thesis .
  qed
  show ?thesis
  proof (cases "length fs = 1")
    case True
    then obtain f where f: "fs = [f]" by (cases fs) auto
    with len [of f] assms(6) have "scale_col (feature_values df f) ! i = standard_value df f i"
      by (simp add: scale_col_nth standard_value_def)
    with raw_score_valid[OF assms(1-4), of axis] assms(5) f show ?thesis
      by (simp add: row_score_def)
  next
    case False
    let ?X = "centre (scaled_features df fs)"
    have row: "rows ?X ! i
        = map (\<lambda>f. standard_value df f i - mean (scale_col (feature_values df f))) fs"
      using len assms(6)
      by (auto simp: rows_def centre_def scaled_features_def scale_col_nth standard_value_def)
    have "i < length (rows ?X)"
      using assms(6) by (simp add: rows_def centre_def scaled_features_def)
    then have "project ?X axis ! i = dot (rows ?X ! i) axis"
      unfolding project_def by (rule nth_map)
    with row False have "project ?X axis ! i = row_score axis df fs i"
      by (simp only: row_score_def if_False)
    with raw_score_valid[OF assms(1-4), of axis] assms(5) False show ?thesis by simp
  qed
qed

subsection \<open>The whole function on a table with rows and features\<close>

lemma compute_index_valid:
  assumes "wf_dataframe df" "valid_features df (default_features df features)"
    "0 < nrows df" "default_features df features \<noteq> []"
  shows "\<exists>sc. raw_score axis df (default_features df features) = Inr sc \<and> sc \<noteq> [] \<and>
    length sc = nrows df \<and>
    compute_index axis df features =
      Inr (if Max (set sc) = Min (set sc) then replicate (nrows df) 0
           else rescale (Min (set sc)) (Max (set sc)) sc)"
proof -
  let ?fs = "default_features df features"
  from raw_score_valid[OF assms] obtain sc where sc: "raw_score axis df ?fs = Inr sc" by blast
  from raw_score_length[OF assms sc] have len: "length sc = nrows df" .
  with assms(3) have ne: "sc \<noteq> []" by auto
  from normalize01_nonempty[OF ne len] sc assms(4) len ne show ?thesis
    by (simp add: compute_index_def)
qed

subsection \<open>The first principal axis beside a constant column\<close>















subsection \<open>The example tables, standardised\<close>

lemma sqrt_200_3: "10 / sqrt (200 / 3) = sqrt (3 / 2)"
proof -
  have "sqrt (3 / 2) * sqrt (200 / 3) = sqrt ((3 / 2) * (200 / 3))"
    by (rule real_sqrt_mult [symmetric])
  also have "\<dots> = sqrt (10\<^sup>2)" by simp
  also have "\<dots> = 10" by (simp del: power2_eq_square)
  finally have "sqrt (3 / 2) * sqrt (200 / 3) = 10" .
  moreover have "sqrt (200 / 3) \<noteq> 0" by simp
  ultimately show ?thesis by (simp add: field_simps)
qed

lemma scale_col_scenario_a:
  "scale_col [10, 20, 30] = [- sqrt (3 / 2), 0, sqrt (3 / 2)]"
proof -
  have m: "mean [10, 20, 30] = 20" by (simp add: mean_def)
  have v: "var [10, 20, 30] = 200 / 3" by (simp add: var_def m)
  have "handle_zeros_in_scale (sqrt (200 / 3)) = sqrt (200 / 3)"
    by (simp add: handle_zeros_in_scale_def)
  then show ?thesis using sqrt_200_3
    by (simp add: scale_col_def m v)
qed

lemma standardized_scenario_a:
  "standardized scenario_a [''populacao'']
     = Inr \<lparr>shape0 = 3, cols = [ [- sqrt (3 / 2), 0, sqrt (3 / 2)] ]\<rparr>"
  using scale_col_scenario_a
  by (simp add: standardized_def scaler_fit_transform_def check_array_def scenario_a_def)


text \<open>The definitions to unfold when a concrete table is evaluated.\<close>

lemmas eval_defs = compute_index_def default_features_def select_dtypes_number_def raw_score_def
  standardized_def scaler_fit_transform_def check_array_def scale_col_def mean_def var_def
  handle_zeros_in_scale_def shape1_def ravel_def rows_def normalize01_def series_def rescale_def
  pca_fit_transform_def project_def centre_def dot_def

section \<open>The properties\<close>

subsection \<open>When the function returns and when it raises\<close>

text \<open>
  C1, as the specification states it, fails: on a table with no row and a number column the
  validation inside \<^verbatim>\<open>StandardScaler.fit_transform\<close> raises \<^verbatim>\<open>ValueError\<close>.
\<close>

theorem compute_index_empty_table_raises:
  "compute_index [] no_rows None = Inl ValueError"
  by (simp add: compute_index_def default_features_def select_dtypes_number_def raw_score_def
      standardized_def scaler_fit_transform_def check_array_def no_rows_def)

text \<open>
  C1, amended. On a well-formed table whose features name number columns,
  \<open>compute_index\<close> returns one score per row whenever the table has at least one row or the
  feature set is empty, whatever the number of features and whether or not they are
  constant; on a table with no row and a non-empty feature set it raises \<^verbatim>\<open>ValueError\<close>.
\<close>

theorem compute_index_defined:
  assumes "wf_dataframe df" "valid_features df (default_features df features)"
  shows "(0 < nrows df \<or> default_features df features = [] \<longrightarrow>
            (\<exists>s. compute_index axis df features = Inr s \<and> length s = nrows df))
       \<and> (nrows df = 0 \<and> default_features df features \<noteq> [] \<longrightarrow>
            compute_index axis df features = Inl ValueError)"
proof (intro conjI impI)
  assume a: "0 < nrows df \<or> default_features df features = []"
  show "\<exists>s. compute_index axis df features = Inr s \<and> length s = nrows df"
  proof (cases "default_features df features = []")
    case True
    then show ?thesis by (simp add: compute_index_def)
  next
    case False
    with a have "0 < nrows df" by simp
    from compute_index_valid[OF assms this False, of axis] show ?thesis
      by (auto simp: rescale_def)
  qed
next
  assume "nrows df = 0 \<and> default_features df features \<noteq> []"
  with assms show "compute_index axis df features = Inl ValueError"
    by (simp add: compute_index_def raw_score_def standardized_valid)
qed

theorem compute_index_defined_witness:
  "wf_dataframe scenario_a \<and> valid_features scenario_a (default_features scenario_a None)
   \<and> 0 < nrows scenario_a
   \<and> (\<exists>s. compute_index [] scenario_a None = Inr s \<and> length s = 3)
   \<and> wf_dataframe no_rows \<and> valid_features no_rows (default_features no_rows None)
   \<and> nrows no_rows = 0 \<and> default_features no_rows None \<noteq> []
   \<and> compute_index [] no_rows None = Inl ValueError"
  using compute_index_defined [of scenario_a None "[]"]
    compute_index_defined [of no_rows None "[]"]
  by (simp add: wf_dataframe_def valid_features_def default_features_def
      select_dtypes_number_def scenario_a_def no_rows_def)

subsection \<open>Row count and row order\<close>

text \<open>
  C2. Whenever \<open>compute_index\<close> returns, it returns exactly one score per row of the
  table, and the score at position \<open>i\<close> is the score of row \<open>i\<close>: 0 when the feature
  set is empty; otherwise the raw score of row \<open>i\<close> (its standardised value for a single
  feature, the projection of its standardised and centred values for several), set to 0 in
  the degenerate case and rescaled by the extrema of all rows otherwise.
\<close>

theorem one_score_per_row:
  assumes "wf_dataframe df" "valid_features df (default_features df features)"
    and "compute_index axis df features = Inr s"
  shows "length s = nrows df
       \<and> (default_features df features = [] \<longrightarrow> (\<forall>i<nrows df. s ! i = 0))
       \<and> (default_features df features \<noteq> [] \<longrightarrow>
            (\<exists>sc. raw_score axis df (default_features df features) = Inr sc
                \<and> length sc = nrows df
                \<and> (\<forall>i<nrows df.
                      sc ! i = row_score axis df (default_features df features) i
                    \<and> s ! i = (if Max (set sc) = Min (set sc) then 0
                               else (sc ! i - Min (set sc)) / (Max (set sc) - Min (set sc))))))"
proof (cases "default_features df features = []")
  case True
  with assms(3) show ?thesis by (auto simp: compute_index_def)
next
  case False
  let ?fs = "default_features df features"
  have pos: "0 < nrows df"
  proof (rule ccontr)
    assume "\<not> 0 < nrows df"
    with assms False show False
      by (simp add: compute_index_def raw_score_def standardized_valid)
  qed
  from compute_index_valid[OF assms(1,2) pos False, of axis] assms(3) obtain sc where
    sc: "raw_score axis df ?fs = Inr sc" "length sc = nrows df"
    and s: "s = (if Max (set sc) = Min (set sc) then replicate (nrows df) 0
                 else rescale (Min (set sc)) (Max (set sc)) sc)"
    by auto
  have "sc ! i = row_score axis df ?fs i" if "i < nrows df" for i
    using raw_score_nth[OF assms(1,2) pos False sc(1) that] .
  moreover have "s ! i = (if Max (set sc) = Min (set sc) then 0
      else (sc ! i - Min (set sc)) / (Max (set sc) - Min (set sc)))" if "i < nrows df" for i
    using that sc(2) unfolding s by (simp add: rescale_def)
  moreover have "length s = nrows df" using sc(2) unfolding s by (simp add: rescale_def)
  ultimately show ?thesis using False sc by auto
qed

theorem one_score_per_row_witness:
  "wf_dataframe two_rows \<and> valid_features two_rows (default_features two_rows None)
   \<and> compute_index [] two_rows None = Inr [0, 1]
   \<and> length [0, 1::real] = nrows two_rows
   \<and> row_score [] two_rows [''populacao''] 0 = -1 \<and> row_score [] two_rows [''populacao''] 1 = 1"
  using one_score_per_row [of two_rows None "[]" "[0, 1]"]
  by (simp add: eval_defs two_rows_def upt_rec wf_dataframe_def valid_features_def
      feature_values_def filled_def row_score_def standard_value_def)

subsection \<open>Scenario A\<close>

text \<open>
  C3, as the specification states it, fails in its intermediate step: with the population
  standard deviation the column 10, 20, 30 is not standardised to -1, 0, 1 (that is the
  result for the sample standard deviation).
\<close>

theorem scenario_a_not_unit_steps:
  "standardized scenario_a [''populacao''] \<noteq> Inr \<lparr>shape0 = 3, cols = [ [-1, 0, 1] ]\<rparr>"
proof -
  have "sqrt (3 / 2) \<noteq> 1" by simp
  then show ?thesis by (simp add: standardized_scenario_a)
qed

text \<open>
  C3, amended. For the table with the single feature column 10, 20, 30 the
  standardisation gives \<open>- sqrt (3/2), 0, sqrt (3/2)\<close>, about -1.2247, 0, 1.2247, and
  \<open>compute_index\<close> returns exactly 0, 1/2, 1.
\<close>

theorem scenario_a_scores:
  "standardized scenario_a [''populacao'']
     = Inr \<lparr>shape0 = 3, cols = [ [- sqrt (3 / 2), 0, sqrt (3 / 2)] ]\<rparr>
   \<and> compute_index axis scenario_a (Some [''populacao'']) = Inr [0, 1 / 2, 1]
   \<and> compute_index axis scenario_a None = Inr [0, 1 / 2, 1]"
proof -
  let ?a = "sqrt (3 / 2)"
  have a: "0 < ?a" by simp
  have raw: "raw_score axis scenario_a [''populacao''] = Inr [- ?a, 0, ?a]"
    by (simp add: raw_score_def standardized_scenario_a shape1_def ravel_def rows_def upt_rec)
  have n: "normalize01 [- ?a, 0, ?a] 3 = Inr [0, 1 / 2, 1]"
    using a by (simp add: normalize01_def series_def rescale_def)
  have d: "default_features scenario_a None = [''populacao'']"
    by (simp add: default_features_def select_dtypes_number_def scenario_a_def)
  have r: "nrows scenario_a = 3" by (simp add: scenario_a_def)
  from raw n d r standardized_scenario_a show ?thesis
    by (simp add: compute_index_def default_features_def)
qed

subsection \<open>A constant column beside a varying one\<close>




subsection \<open>Empty feature set\<close>

text \<open>
  C5. When the feature set is empty, because the caller passed none and the table has no
  number column, or because the caller passed the empty list, \<open>compute_index\<close> returns
  0.0 for every row: a vector of zeros as long as the table, and no error.
\<close>

theorem compute_index_no_features:
  "default_features df features = [] \<Longrightarrow>
   compute_index axis df features = Inr (replicate (nrows df) 0)"
  by (simp add: compute_index_def)

theorem compute_index_no_features_witness:
  "default_features names_only None = []
   \<and> compute_index [] names_only None = Inr [0, 0, 0]"
  using compute_index_no_features [of names_only None "[]"]
  by (simp add: default_features_def select_dtypes_number_def names_only_def numeral_3_eq_3)

subsection \<open>Constant columns\<close>



subsection \<open>The degenerate case and the rescaling\<close>

text \<open>
  C7. On a table with at least one row and a non-empty feature set, \<open>compute_index\<close>
  returns: when the maximum and the minimum of the raw score are equal, 0.0 for every row;
  otherwise \<open>(score - min) / (max - min)\<close> for every row. The maximum and the minimum
  are equal on every table of one row and on every table whose selected columns are all
  constant.
\<close>

theorem degenerate_or_rescaled:
  assumes "wf_dataframe df" "valid_features df (default_features df features)"
    "0 < nrows df" "default_features df features \<noteq> []"
  shows "\<exists>sc mx mn.
      raw_score axis df (default_features df features) = Inr sc
    \<and> amax sc = Inr mx \<and> amin sc = Inr mn
    \<and> compute_index axis df features =
        Inr (if mx = mn then replicate (nrows df) 0
             else map (\<lambda>x. (x - mn) / (mx - mn)) sc)
    \<and> (nrows df = 1 \<longrightarrow> mx = mn)
    \<and> (list_all (\<lambda>f. is_constant (feature_values df f)) (default_features df features)
         \<longrightarrow> mx = mn)"
proof -
  let ?fs = "default_features df features"
  from compute_index_valid[OF assms, of axis] obtain sc where
    sc: "raw_score axis df ?fs = Inr sc" "sc \<noteq> []" "length sc = nrows df"
    and ci: "compute_index axis df features =
      Inr (if Max (set sc) = Min (set sc) then replicate (nrows df) 0
           else rescale (Min (set sc)) (Max (set sc)) sc)"
    by blast
  have one: "Max (set sc) = Min (set sc)" if "nrows df = 1"
  proof -
    from that sc obtain x where "sc = [x]" by (cases sc) auto
    then show ?thesis by simp
  qed
  have const: "Max (set sc) = Min (set sc)"
    if "list_all (\<lambda>f. is_constant (feature_values df f)) ?fs"
  proof -
    from raw_score_constant[OF assms that, of axis] sc
    have "sc = replicate (nrows df) 0" by simp
    with assms(3) have "set sc = {0}" by (metis set_replicate less_numeral_extra(3))
    then show ?thesis by simp
  qed
  from sc ci one const show ?thesis
    by (auto simp: amax_Max amin_Min rescale_def)
qed

theorem degenerate_or_rescaled_witness:
  "wf_dataframe scenario_b \<and> valid_features scenario_b (default_features scenario_b None)
   \<and> 0 < nrows scenario_b \<and> default_features scenario_b None \<noteq> []
   \<and> list_all (\<lambda>f. is_constant (feature_values scenario_b f)) (default_features scenario_b None)
   \<and> compute_index [] scenario_b None = Inr [0, 0, 0]
   \<and> wf_dataframe two_rows \<and> valid_features two_rows (default_features two_rows None)
   \<and> 0 < nrows two_rows \<and> default_features two_rows None \<noteq> []
   \<and> raw_score [] two_rows (default_features two_rows None) = Inr [-1, 1]
   \<and> compute_index [] two_rows None = Inr [0, 1]"
proof -
  have b: "wf_dataframe scenario_b \<and> valid_features scenario_b (default_features scenario_b None)
      \<and> 0 < nrows scenario_b \<and> default_features scenario_b None \<noteq> []
      \<and> list_all (\<lambda>f. is_constant (feature_values scenario_b f))
            (default_features scenario_b None)"
    by (simp add: wf_dataframe_def valid_features_def default_features_def
        select_dtypes_number_def scenario_b_def is_constant_def feature_values_def filled_def)
  have t: "wf_dataframe two_rows \<and> valid_features two_rows (default_features two_rows None)
      \<and> 0 < nrows two_rows \<and> default_features two_rows None \<noteq> []"
    by (simp add: wf_dataframe_def valid_features_def default_features_def
        select_dtypes_number_def two_rows_def)
  have r: "raw_score [] two_rows (default_features two_rows None) = Inr [-1, 1]"
    by (simp add: eval_defs two_rows_def upt_rec)
  from b degenerate_or_rescaled [of scenario_b None "[]"]
  have 1: "compute_index [] scenario_b None = Inr [0, 0, 0]"
    by (auto simp add: scenario_b_def numeral_3_eq_3)
  from t r degenerate_or_rescaled [of two_rows None "[]"]
  have 2: "compute_index [] two_rows None = Inr [0, 1]"
    by auto
  from b t r 1 2 show ?thesis by simp
qed

subsection \<open>A single feature\<close>



subsection \<open>The rescaling step\<close>

text \<open>
  C9. On a score vector whose maximum is greater than its minimum, the normalisation
  step is idempotent: the rescaled vector has minimum 0 and maximum 1, and rescaling it
  again returns it unchanged.
\<close>

theorem rescale_idempotent:
  assumes "amin v = Inr mn" "amax v = Inr mx" "mn < mx"
  shows "normalize01 v (length v) = Inr (rescale mn mx v)
       \<and> amin (rescale mn mx v) = Inr 0 \<and> amax (rescale mn mx v) = Inr 1
       \<and> rescale 0 1 (rescale mn mx v) = rescale mn mx v
       \<and> normalize01 (rescale mn mx v) (length v) = Inr (rescale mn mx v)"
proof -
  from assms amin_Inr amax_Inr have v: "v \<noteq> []" "mn = Min (set v)" "mx = Max (set v)"
    by blast+
  let ?w = "rescale mn mx v"
  have w: "?w \<noteq> []" "length ?w = length v" using v by (simp_all add: rescale_def)
  have mx: "Max (set ?w) = 1" using Max_rescale[OF v(1)] assms(3) v by simp
  have mn: "Min (set ?w) = 0" using Min_rescale[OF v(1)] assms(3) v by simp
  have 1: "normalize01 v (length v) = Inr ?w"
    using normalize01_nonempty[OF v(1) refl] assms(3) v by simp
  have 2: "normalize01 ?w (length v) = Inr ?w"
    using normalize01_nonempty[OF w] mx mn by (simp add: rescale_unit)
  from 1 2 mx mn w show ?thesis by (simp add: amax_Max amin_Min rescale_unit)
qed

theorem rescale_idempotent_witness:
  "amin [2, 4, 3] = Inr 2 \<and> amax [2, 4, 3] = Inr 4 \<and> (2::real) < 4
   \<and> normalize01 [2, 4, 3] 3 = Inr [0, 1, 1/2]
   \<and> normalize01 [0, 1, 1/2] 3 = Inr [0, 1, 1/2]"
  using rescale_idempotent [of "[2, 4, 3]" 2 4]
  by (simp add: rescale_def numeral_3_eq_3)

text \<open>
  C10. When the raw score has a maximum different from its minimum, the scores returned
  attain both endpoints: a row whose raw score is minimal receives exactly 0, a row whose
  raw score is maximal receives exactly 1, and every score lies between 0 and 1.
\<close>

theorem rescaled_endpoints:
  assumes "default_features df features \<noteq> []"
    and "raw_score axis df (default_features df features) = Inr sc"
    and "amin sc = Inr mn" "amax sc = Inr mx" "mx \<noteq> mn"
    and "compute_index axis df features = Inr s"
  shows "(\<exists>i<length s. sc ! i = mn \<and> s ! i = 0)
       \<and> (\<exists>i<length s. sc ! i = mx \<and> s ! i = 1)
       \<and> (\<forall>i<length s. 0 \<le> s ! i \<and> s ! i \<le> 1)"
proof -
  from assms have s: "s = rescale mn mx sc"
    by (simp add: compute_index_def normalize01_def series_def split: if_splits)
  from assms amin_Inr amax_Inr have sc: "sc \<noteq> []" "mn = Min (set sc)" "mx = Max (set sc)"
    by blast+
  have "mn \<in> set sc" using sc by simp
  then obtain i where i: "i < length sc" "sc ! i = mn" by (auto simp: in_set_conv_nth)
  have "mx \<in> set sc" using sc by simp
  then obtain j where j: "j < length sc" "sc ! j = mx" by (auto simp: in_set_conv_nth)
  have lt: "mn < mx"
  proof -
    have "mn \<le> mx" using sc by simp
    with assms(5) show ?thesis by simp
  qed
  have bounds: "0 \<le> s ! k \<and> s ! k \<le> 1" if "k < length s" for k
  proof -
    from that s have k: "k < length sc" by (simp add: rescale_def)
    then have "sc ! k \<in> set sc" by simp
    then have "mn \<le> sc ! k" "sc ! k \<le> mx" using sc by simp_all
    with lt k show ?thesis unfolding s by (simp add: rescale_def)
  qed
  from i have 1: "\<exists>i<length s. sc ! i = mn \<and> s ! i = 0"
    unfolding s by (auto simp: rescale_def)
  from j lt have 2: "\<exists>i<length s. sc ! i = mx \<and> s ! i = 1"
    unfolding s by (auto simp: rescale_def)
  from 1 2 bounds show ?thesis by blast
qed

theorem rescaled_endpoints_witness:
  "default_features two_rows None \<noteq> []
   \<and> raw_score [] two_rows (default_features two_rows None) = Inr [-1, 1]
   \<and> amin [-1, 1] = Inr (-1) \<and> amax [-1, 1] = Inr 1 \<and> (1::real) \<noteq> -1
   \<and> compute_index [] two_rows None = Inr [0, 1]
   \<and> (\<exists>i<length [0, 1::real]. [-1, 1::real] ! i = -1 \<and> [0, 1::real] ! i = 0)
   \<and> (\<exists>i<length [0, 1::real]. [-1, 1::real] ! i = 1 \<and> [0, 1::real] ! i = 1)"
  using rescaled_endpoints [of two_rows None "[]" "[-1, 1]" "-1" 1 "[0, 1]"]
  by (simp add: eval_defs two_rows_def upt_rec)

end
